theory Spec2Isabelle
  imports Main "HOL-Library.Word"
begin

unbundle bit_operations_syntax

section \<open>The abyss allocators (libs/abyss.h, v0.4)\<close>

text \<open>
  The embedding follows the default build of \<^verbatim>\<open>libs/abyss.h\<close> on an LP64 target:
  safety checks on (\<^verbatim>\<open>ABYSS_UNSAFE_MODE\<close> not defined), no locks
  (\<^verbatim>\<open>ABYSS_THREAD_SAFE_MODE\<close> not defined, so \<^verbatim>\<open>_ABYSS_ADD_LOCK\<close> adds no field and
  \<^verbatim>\<open>_ABYSS_THREAD_SAFE\<close> expands to nothing), \<^verbatim>\<open>ABYSS_DATA_ALIGN\<close> at its default 8.
  \<^verbatim>\<open>size_t\<close>, \<^verbatim>\<open>intptr_t\<close> and pointers are 64-bit words, \<^verbatim>\<open>unsigned short\<close> is a
  16-bit word; all arithmetic wraps as in C. The switch \<^verbatim>\<open>ABYSS_HANDLE_MODE\<close> is the
  boolean first argument \<open>hm\<close> of every function whose result depends on it.
  A leading underscore of a C name is dropped (\<^verbatim>\<open>_ABYSS_ROUND_UP\<close> is \<open>ABYSS_ROUND_UP\<close>),
  except for \<^verbatim>\<open>_abyss_totem_free\<close>, written \<open>priv_abyss_totem_free\<close> beside the public
  \<^verbatim>\<open>abyss_totem_free\<close>.
\<close>

subsection \<open>Machine types and sizes\<close>

type_synonym size_t = "64 word"
type_synonym addr = "64 word"
type_synonym abyss_handle = "64 word"
type_synonym ushort = "16 word"

text \<open>\<^verbatim>\<open>struct Abyss_Arena_s { size_t offset; size_t size; char buf[]; }\<close>\<close>

definition sizeof_Abyss_Arena :: size_t where
  "sizeof_Abyss_Arena = 16"

text \<open>\<^verbatim>\<open>struct Abyss_Surge_s { size_t size; size_t offset; size_t count; char buf[]; }\<close>\<close>

definition sizeof_Abyss_Surge :: size_t where
  "sizeof_Abyss_Surge = 24"

text \<open>
  \<^verbatim>\<open>struct Abyss_Totem_s { unsigned short head; unsigned short capacity;
     struct { void* ptr; abyss_allocator_t type; } allocators[]; }\<close>:
  the two shorts are padded to the 8-byte alignment of the slot struct, and one slot
  (a pointer, a 4-byte enum, 4 bytes of padding) takes 16 bytes.
\<close>

definition sizeof_Abyss_Totem :: size_t where
  "sizeof_Abyss_Totem = 8"

definition sizeof_slot :: size_t where
  "sizeof_slot = 16"

definition sizeof_voidp :: size_t where
  "sizeof_voidp = 8"

text \<open>\<^verbatim>\<open>abyss_handle\<close> is \<^verbatim>\<open>void*\<close> or \<^verbatim>\<open>size_t\<close>: 8 bytes either way.\<close>

definition sizeof_abyss_handle :: size_t where
  "sizeof_abyss_handle = 8"

definition ABYSS_DATA_ALIGN :: size_t where
  "ABYSS_DATA_ALIGN = 8"

text \<open>\<^verbatim>\<open>#define _ABYSS_ROUND_UP(n, align) (((n) + (align) - 1) & -(align))\<close>\<close>

definition ABYSS_ROUND_UP :: "size_t \<Rightarrow> size_t \<Rightarrow> size_t" where
  "ABYSS_ROUND_UP n align = (n + align - 1) AND (- align)"

text \<open>\<^verbatim>\<open>#define _ABYSS_ROUND_S(allocator) _ABYSS_ROUND_UP(sizeof(allocator), ABYSS_DATA_ALIGN)\<close>,
  applied to the size of the struct.\<close>

definition ABYSS_ROUND_S :: "size_t \<Rightarrow> size_t" where
  "ABYSS_ROUND_S sizeof_allocator = ABYSS_ROUND_UP sizeof_allocator ABYSS_DATA_ALIGN"

subsection \<open>Handles\<close>

definition abyss_handle_NULL :: abyss_handle where
  "abyss_handle_NULL = 0"

definition abyss_handle_is_NULL :: "abyss_handle \<Rightarrow> bool" where
  "abyss_handle_is_NULL val \<longleftrightarrow> val = 0"

text \<open>\<^verbatim>\<open>abyss_handle_switch(ptr, off)\<close> is \<^verbatim>\<open>(off)\<close> in handle mode and \<^verbatim>\<open>(ptr)\<close> otherwise.\<close>

definition abyss_handle_switch :: "bool \<Rightarrow> addr \<Rightarrow> size_t \<Rightarrow> abyss_handle" where
  "abyss_handle_switch hm p off = (if hm then off else p)"

text \<open>
  \<^verbatim>\<open>abyss_handle_get_hdl(allocator, ptr)\<close>:
  \<^verbatim>\<open>((ptr == NULL) ? 0 : (size_t)((char*)ptr - (char*)allocator))\<close> in handle mode,
  \<^verbatim>\<open>(ptr)\<close> otherwise.
\<close>

definition abyss_handle_get_hdl :: "bool \<Rightarrow> addr \<Rightarrow> addr \<Rightarrow> abyss_handle" where
  "abyss_handle_get_hdl hm allocator p =
     (if hm then (if p = 0 then 0 else p - allocator) else p)"

text \<open>
  \<^verbatim>\<open>abyss_handle_get_ptr(allocator, hdl)\<close>:
  \<^verbatim>\<open>((hdl == 0) ? NULL : (void*)(((char*)allocator) + hdl))\<close> in handle mode,
  \<^verbatim>\<open>(hdl)\<close> otherwise.
\<close>

definition abyss_handle_get_ptr :: "bool \<Rightarrow> addr \<Rightarrow> abyss_handle \<Rightarrow> addr" where
  "abyss_handle_get_ptr hm allocator hdl =
     (if hm then (if hdl = 0 then 0 else allocator + hdl) else hdl)"

text \<open>
  The diagnostics that the \<^verbatim>\<open>free\<close> functions write to stderr with \<^verbatim>\<open>_ABYSS_WARN\<close>:
  "invalid free, out of the allocated block mem range, ..." (Arena and Surge),
  "invalid double free" (Surge) and "invalid free, the allocatos inside the totem didn't
  have it in range, ..." (Totem).
\<close>

datatype warning =
    Warn_invalid_free
  | Warn_double_free
  | Warn_totem_invalid_free

subsection \<open>Arena\<close>

record Abyss_Arena =
  a_offset :: size_t
  a_size :: size_t

text \<open>\<^verbatim>\<open>arena->buf\<close>, for the arena whose header is at address \<open>arena\<close>.\<close>

definition arena_buf :: "addr \<Rightarrow> addr" where
  "arena_buf arena = arena + sizeof_Abyss_Arena"

text \<open>\<^verbatim>\<open>abyss_arena_init\<close>: \<open>None\<close> is the \<^verbatim>\<open>NULL\<close> return (with its warning).\<close>

definition abyss_arena_init :: "size_t \<Rightarrow> Abyss_Arena option" where
  "abyss_arena_init sz =
     (if sz < sizeof_Abyss_Arena then None
      else Some \<lparr> a_offset = ABYSS_ROUND_S sizeof_Abyss_Arena - sizeof_Abyss_Arena,
                  a_size = sz - sizeof_Abyss_Arena \<rparr>)"

definition abyss_arena_alloc ::
  "bool \<Rightarrow> addr \<Rightarrow> Abyss_Arena \<Rightarrow> size_t \<Rightarrow> abyss_handle \<times> Abyss_Arena" where
  "abyss_arena_alloc hm arena a sz =
     (if sz = 0 then (abyss_handle_switch hm (arena + a_offset a) (a_offset a), a)
      else if a_size a - a_offset a < sz then (abyss_handle_NULL, a)
      else (abyss_handle_switch hm (arena_buf arena + a_offset a)
              (a_offset a + sizeof_Abyss_Arena),
            a\<lparr> a_offset := ABYSS_ROUND_UP (a_offset a + sz) ABYSS_DATA_ALIGN \<rparr>))"

text \<open>
  \<^verbatim>\<open>_abyss_arena_contains\<close>:
  \<^verbatim>\<open>intptr_t delta = (char*)arena->buf - (char*)ptr;
  return 0 <= delta && (size_t)delta < arena->offset;\<close>
\<close>

definition abyss_arena_contains :: "addr \<Rightarrow> Abyss_Arena \<Rightarrow> addr \<Rightarrow> bool" where
  "abyss_arena_contains arena a p =
     (let delta = arena_buf arena - p in 0 \<le> sint delta \<and> delta < a_offset a)"

text \<open>\<^verbatim>\<open>abyss_arena_free\<close> writes nothing to the arena; the result is the list of warnings
  it prints.\<close>

definition abyss_arena_free ::
  "bool \<Rightarrow> addr \<Rightarrow> Abyss_Arena \<Rightarrow> abyss_handle \<Rightarrow> Abyss_Arena \<times> warning list" where
  "abyss_arena_free hm arena a hdl =
     (if abyss_handle_is_NULL hdl then (a, [])
      else if \<not> abyss_arena_contains arena a (abyss_handle_get_ptr hm arena hdl)
        then (a, [Warn_invalid_free])
      else (a, []))"

definition abyss_arena_reset :: "Abyss_Arena \<Rightarrow> Abyss_Arena" where
  "abyss_arena_reset a =
     a\<lparr> a_offset := ABYSS_ROUND_S sizeof_Abyss_Arena - sizeof_Abyss_Arena \<rparr>"

subsection \<open>Surge\<close>

record Abyss_Surge =
  s_size :: size_t
  s_offset :: size_t
  s_count :: size_t

definition surge_buf :: "addr \<Rightarrow> addr" where
  "surge_buf surge = surge + sizeof_Abyss_Surge"

definition abyss_surge_init :: "size_t \<Rightarrow> Abyss_Surge option" where
  "abyss_surge_init sz =
     (if sz < sizeof_Abyss_Surge then None
      else Some \<lparr> s_size = sz - sizeof_Abyss_Surge,
                  s_offset = ABYSS_ROUND_UP sizeof_Abyss_Arena ABYSS_DATA_ALIGN
                             - sizeof_Abyss_Arena,
                  s_count = 0 \<rparr>)"

definition abyss_surge_alloc ::
  "bool \<Rightarrow> addr \<Rightarrow> Abyss_Surge \<Rightarrow> size_t \<Rightarrow> abyss_handle \<times> Abyss_Surge" where
  "abyss_surge_alloc hm surge s sz =
     (if sz = 0 then (abyss_handle_switch hm (surge + s_offset s) (s_offset s), s)
      else if s_size s - s_offset s < sz then (abyss_handle_NULL, s)
      else (abyss_handle_switch hm (surge_buf surge + s_offset s)
              (s_offset s + sizeof_Abyss_Surge),
            s\<lparr> s_offset := ABYSS_ROUND_UP (s_offset s + sz) ABYSS_DATA_ALIGN,
               s_count := s_count s + 1 \<rparr>))"

definition abyss_surge_contains :: "addr \<Rightarrow> Abyss_Surge \<Rightarrow> addr \<Rightarrow> bool" where
  "abyss_surge_contains surge s p =
     (let delta = surge_buf surge - p in 0 \<le> sint delta \<and> delta < s_offset s)"

definition abyss_surge_free ::
  "bool \<Rightarrow> addr \<Rightarrow> Abyss_Surge \<Rightarrow> abyss_handle \<Rightarrow> Abyss_Surge \<times> warning list" where
  "abyss_surge_free hm surge s hdl =
     (if abyss_handle_is_NULL hdl then (s, [])
      else if \<not> abyss_surge_contains surge s (abyss_handle_get_ptr hm surge hdl)
        then (s, [Warn_invalid_free])
      else if s_count s = 0 then (s, [Warn_double_free])
      else ((if s_count s = 1
               then s\<lparr> s_offset := ABYSS_ROUND_S sizeof_Abyss_Surge - sizeof_Abyss_Arena \<rparr>
               else s)
            \<lparr> s_count := s_count s - 1 \<rparr>, []))"

definition abyss_surge_reset :: "Abyss_Surge \<Rightarrow> Abyss_Surge" where
  "abyss_surge_reset s =
     s\<lparr> s_offset := ABYSS_ROUND_S sizeof_Abyss_Surge - sizeof_Abyss_Arena, s_count := 0 \<rparr>"

subsection \<open>Totem\<close>

text \<open>\<^verbatim>\<open>typedef enum { ABYSS_SURGE_T = 1, ABYSS_ARENA_T, ABYSS_TOTEM_T } abyss_allocator_t;\<close>\<close>

datatype abyss_allocator_t = ABYSS_SURGE_T | ABYSS_ARENA_T | ABYSS_TOTEM_T

text \<open>One element of \<^verbatim>\<open>allocators[]\<close>: \<^verbatim>\<open>struct { void* ptr; abyss_allocator_t type; }\<close>.\<close>

record slot =
  slot_ptr :: addr
  slot_type :: abyss_allocator_t

text \<open>
  \<open>t_allocators\<close> is the flexible array \<^verbatim>\<open>allocators[]\<close> as far as it lies inside the
  buffer the caller gave to \<^verbatim>\<open>abyss_totem_init\<close>: element \<open>i\<close> of the list is the slot at
  bytes \<open>sizeof_Abyss_Totem + i * sizeof_slot\<close> onwards. An access at an index beyond the
  list is an access outside that buffer (undefined behaviour in C), which the model
  reports as the error \<open>Out_of_bounds\<close>.
\<close>

record Abyss_Totem =
  t_head :: ushort
  t_capacity :: ushort
  t_allocators :: "slot list"

datatype error = Out_of_bounds | Bad_pointer | Out_of_fuel

text \<open>\<^verbatim>\<open>#define ABYSS_TOTEM_SIZE(capacity) (sizeof(Abyss_Totem) + sizeof(void*) * capacity)\<close>\<close>

definition ABYSS_TOTEM_SIZE :: "size_t \<Rightarrow> size_t" where
  "ABYSS_TOTEM_SIZE capacity = sizeof_Abyss_Totem + sizeof_voidp * capacity"

text \<open>
  The whole slots that a buffer of \<open>sz\<close> bytes holds after the totem header.
  \<^verbatim>\<open>abyss_totem_init\<close> does not write them: their contents are what the buffer held
  before, given by \<open>mem\<close>.
\<close>

definition slots_in_buffer :: "(nat \<Rightarrow> slot) \<Rightarrow> size_t \<Rightarrow> slot list" where
  "slots_in_buffer mem sz = map mem [0 ..< unat ((sz - sizeof_Abyss_Totem) div sizeof_slot)]"

text \<open>\<^verbatim>\<open>abyss_totem_init\<close>: the quotient is stored into an \<^verbatim>\<open>unsigned short\<close>, so it is
  truncated to 16 bits; \<^verbatim>\<open>head = (unsigned short)-1\<close> marks the empty totem.\<close>

definition abyss_totem_init :: "(nat \<Rightarrow> slot) \<Rightarrow> size_t \<Rightarrow> Abyss_Totem option" where
  "abyss_totem_init mem sz =
     (if sz < sizeof_Abyss_Totem then None
      else Some \<lparr> t_head = - 1,
                  t_capacity = ucast ((sz - sizeof_Abyss_Totem) div sizeof_abyss_handle),
                  t_allocators = slots_in_buffer mem sz \<rparr>)"

text \<open>\<^verbatim>\<open>abyss_totem_push\<close>: the result address is \<^verbatim>\<open>allocator\<close>, or 0 for the null return.\<close>

definition abyss_totem_push ::
  "Abyss_Totem \<Rightarrow> addr \<Rightarrow> abyss_allocator_t \<Rightarrow> error + (addr \<times> Abyss_Totem)" where
  "abyss_totem_push t allocator ty =
     (if t_capacity t \<le> t_head t + 1 then Inr (abyss_handle_NULL, t)
      else
        let head = t_head t + 1 in
        if unat head < length (t_allocators t)
        then Inr (allocator,
                  t\<lparr> t_head := head,
                     t_allocators :=
                       (t_allocators t)[unat head := \<lparr> slot_ptr = allocator, slot_type = ty \<rparr>] \<rparr>)
        else Inl Out_of_bounds)"

text \<open>The loop of \<^verbatim>\<open>abyss_totem_pop\<close>:
  \<^verbatim>\<open>for ( int i = indx; i < totem->head; i++ ) allocators[i] = allocators[i + 1];\<close>\<close>

function pop_shift :: "slot list \<Rightarrow> nat \<Rightarrow> nat \<Rightarrow> slot list" where
  "pop_shift xs i head = (if i < head then pop_shift (xs[i := xs ! (i + 1)]) (i + 1) head else xs)"
  by pat_completeness auto
termination
  by (relation "measure (\<lambda>(xs, i, head). head - i)") auto

text \<open>
  \<^verbatim>\<open>abyss_totem_pop(totem, indx, type)\<close>. \<open>indx\<close> is the C \<^verbatim>\<open>int\<close>; the second component
  of the result is what is stored through \<^verbatim>\<open>type\<close> when that pointer is not null, and the
  address 0 is the null return. The middle test is the model's own: it reports the
  accesses of the code below it that fall outside the buffer.
\<close>

definition abyss_totem_pop ::
  "Abyss_Totem \<Rightarrow> int \<Rightarrow> error + (addr \<times> abyss_allocator_t option \<times> Abyss_Totem)" where
  "abyss_totem_pop t indx0 =
     (let indx = (if indx0 < 0 then uint (t_head t) + indx0 + 1 else indx0);
          len = int (length (t_allocators t)) in
      if uint (t_capacity t) < indx \<or> sint (t_head t) < 0 then Inr (0, None, t)
      else if indx < 0 \<or> len \<le> indx \<or> (indx < uint (t_head t) \<and> len \<le> uint (t_head t))
        then Inl Out_of_bounds
      else Inr (slot_ptr (t_allocators t ! nat indx),
                Some (slot_type (t_allocators t ! nat indx)),
                t\<lparr> t_head := t_head t - 1,
                   t_allocators := pop_shift (t_allocators t) (nat indx) (unat (t_head t)) \<rparr>))"

subsection \<open>Totem operations that reach the children\<close>

text \<open>
  A totem holds pointers to allocators that live in buffers of their own, so the
  operations that follow them work on a store: the object found at each address.
  A slot whose pointer does not lead to an object of the slot's type is the error
  \<open>Bad_pointer\<close>. The recursion into a nested totem has no bound in C (a totem pushed
  into itself recurses forever); \<open>fuel\<close> bounds its depth and \<open>Out_of_fuel\<close> is the
  result when it is used up.
\<close>

datatype object = Arena_obj Abyss_Arena | Surge_obj Abyss_Surge | Totem_obj Abyss_Totem

type_synonym heap = "addr \<Rightarrow> object option"

text \<open>
  \<^verbatim>\<open>abyss_totem_alloc\<close>. \<open>totem_alloc_loop ... (Suc i) ...\<close> is the loop body at index \<open>i\<close>
  of \<^verbatim>\<open>for ( int i = totem->head; 0 <= i; i-- )\<close>, the last argument the current value of
  the local \<^verbatim>\<open>hdl\<close>.
\<close>

fun abyss_totem_alloc ::
    "nat \<Rightarrow> bool \<Rightarrow> heap \<Rightarrow> addr \<Rightarrow> size_t \<Rightarrow> error + (abyss_handle \<times> heap)"
  and totem_alloc_loop ::
    "nat \<Rightarrow> bool \<Rightarrow> heap \<Rightarrow> addr \<Rightarrow> nat \<Rightarrow> size_t \<Rightarrow> abyss_handle
       \<Rightarrow> error + (abyss_handle \<times> heap)" where
  "abyss_totem_alloc 0 hm h totem sz = Inl Out_of_fuel"
| "abyss_totem_alloc (Suc fuel) hm h totem sz =
     (case h totem of
        Some (Totem_obj t) \<Rightarrow>
          totem_alloc_loop fuel hm h totem (Suc (unat (t_head t))) sz abyss_handle_NULL
      | _ \<Rightarrow> Inl Bad_pointer)"
| "totem_alloc_loop fuel hm h totem 0 sz hdl = Inr (hdl, h)"
| "totem_alloc_loop fuel hm h totem (Suc i) sz hdl =
     (case h totem of
        Some (Totem_obj t) \<Rightarrow>
          if length (t_allocators t) \<le> i then Inl Out_of_bounds
          else
            let p = slot_ptr (t_allocators t ! i) in
            (case
               (case slot_type (t_allocators t ! i) of
                  ABYSS_ARENA_T \<Rightarrow>
                    (case h p of
                       Some (Arena_obj a) \<Rightarrow>
                         Inr (fst (abyss_arena_alloc hm p a sz),
                              h(p \<mapsto> Arena_obj (snd (abyss_arena_alloc hm p a sz))))
                     | _ \<Rightarrow> Inl Bad_pointer)
                | ABYSS_SURGE_T \<Rightarrow>
                    (case h p of
                       Some (Surge_obj s) \<Rightarrow>
                         Inr (fst (abyss_surge_alloc hm p s sz),
                              h(p \<mapsto> Surge_obj (snd (abyss_surge_alloc hm p s sz))))
                     | _ \<Rightarrow> Inl Bad_pointer)
                | ABYSS_TOTEM_T \<Rightarrow> abyss_totem_alloc fuel hm h p sz)
             of
               Inl e \<Rightarrow> Inl e
             | Inr (hdl', h') \<Rightarrow>
                 if abyss_handle_is_NULL hdl' then Inr (hdl', h')
                 else totem_alloc_loop fuel hm h' totem i sz hdl')
      | _ \<Rightarrow> Inl Bad_pointer)"

text \<open>
  \<^verbatim>\<open>_abyss_totem_free\<close> (written \<open>priv_abyss_totem_free\<close>, beside the public
  \<^verbatim>\<open>abyss_totem_free\<close>): the boolean is its \<^verbatim>\<open>int\<close> result, true for 1
  (\<^verbatim>\<open>allocator_found\<close>). \<open>ws\<close> collects the warnings printed so far.
\<close>

fun priv_abyss_totem_free ::
    "nat \<Rightarrow> bool \<Rightarrow> heap \<Rightarrow> addr \<Rightarrow> addr \<Rightarrow> warning list
       \<Rightarrow> error + (bool \<times> heap \<times> warning list)"
  and totem_free_loop ::
    "nat \<Rightarrow> bool \<Rightarrow> heap \<Rightarrow> addr \<Rightarrow> nat \<Rightarrow> addr \<Rightarrow> warning list
       \<Rightarrow> error + (bool \<times> heap \<times> warning list)" where
  "priv_abyss_totem_free 0 hm h totem p ws = Inl Out_of_fuel"
| "priv_abyss_totem_free (Suc fuel) hm h totem p ws =
     (case h totem of
        Some (Totem_obj t) \<Rightarrow> totem_free_loop fuel hm h totem (Suc (unat (t_head t))) p ws
      | _ \<Rightarrow> Inl Bad_pointer)"
| "totem_free_loop fuel hm h totem 0 p ws = Inr (False, h, ws)"
| "totem_free_loop fuel hm h totem (Suc i) p ws =
     (case h totem of
        Some (Totem_obj t) \<Rightarrow>
          if length (t_allocators t) \<le> i then Inl Out_of_bounds
          else
            let c = slot_ptr (t_allocators t ! i) in
            (case slot_type (t_allocators t ! i) of
               ABYSS_ARENA_T \<Rightarrow>
                 (case h c of
                    Some (Arena_obj a) \<Rightarrow>
                      if abyss_arena_contains c a p
                      then Inr (True,
                             h(c \<mapsto> Arena_obj
                               (fst (abyss_arena_free hm c a (abyss_handle_get_hdl hm c p)))),
                             ws @ snd (abyss_arena_free hm c a (abyss_handle_get_hdl hm c p)))
                      else totem_free_loop fuel hm h totem i p ws
                  | _ \<Rightarrow> Inl Bad_pointer)
             | ABYSS_SURGE_T \<Rightarrow>
                 (case h c of
                    Some (Surge_obj s) \<Rightarrow>
                      if abyss_surge_contains c s p
                      then Inr (True,
                             h(c \<mapsto> Surge_obj
                               (fst (abyss_surge_free hm c s (abyss_handle_get_hdl hm c p)))),
                             ws @ snd (abyss_surge_free hm c s (abyss_handle_get_hdl hm c p)))
                      else totem_free_loop fuel hm h totem i p ws
                  | _ \<Rightarrow> Inl Bad_pointer)
             | ABYSS_TOTEM_T \<Rightarrow>
                 (case priv_abyss_totem_free fuel hm h c p ws of
                    Inl e \<Rightarrow> Inl e
                  | Inr (found, h', ws') \<Rightarrow>
                      if found then Inr (True, h', ws')
                      else totem_free_loop fuel hm h' totem i p ws'))
      | _ \<Rightarrow> Inl Bad_pointer)"

text \<open>
  \<^verbatim>\<open>abyss_totem_free\<close>:
  \<^verbatim>\<open>const int error = _abyss_totem_free(totem, ptr); if ( error ) { _ABYSS_WARN(...); }\<close>
\<close>

definition abyss_totem_free ::
  "nat \<Rightarrow> bool \<Rightarrow> heap \<Rightarrow> addr \<Rightarrow> addr \<Rightarrow> error + (heap \<times> warning list)" where
  "abyss_totem_free fuel hm h totem p =
     (case priv_abyss_totem_free fuel hm h totem p [] of
        Inl e \<Rightarrow> Inl e
      | Inr (found, h', ws) \<Rightarrow>
          Inr (h', ws @ (if found then [Warn_totem_invalid_free] else [])))"

subsection \<open>Remaining space and managed region\<close>

text \<open>The remaining space of an allocator, as the repository's benchmark computes it:
  \<^verbatim>\<open>size_t arena_free_mem(Abyss_Arena* aa) { return aa->size - aa->offset; }\<close> and
  \<^verbatim>\<open>size_t surge_free_mem(Abyss_Surge* as) { return as->size - as->offset; }\<close>.
  It is the left operand of the capacity test of both \<^verbatim>\<open>alloc\<close> functions.\<close>

definition arena_free_mem :: "Abyss_Arena \<Rightarrow> size_t" where
  "arena_free_mem aa = a_size aa - a_offset aa"

definition surge_free_mem :: "Abyss_Surge \<Rightarrow> size_t" where
  "surge_free_mem as = s_size as - s_offset as"

text \<open>The managed region of an allocator is \<^verbatim>\<open>buf[0] .. buf[size - 1]\<close> (the picture above
  each struct in the source): \<open>p\<close> lies in it when its distance from \<^verbatim>\<open>buf\<close> is below
  \<^verbatim>\<open>size\<close>.\<close>

definition in_arena_region :: "addr \<Rightarrow> Abyss_Arena \<Rightarrow> addr \<Rightarrow> bool" where
  "in_arena_region arena a p \<longleftrightarrow> p - arena_buf arena < a_size a"

definition in_surge_region :: "addr \<Rightarrow> Abyss_Surge \<Rightarrow> addr \<Rightarrow> bool" where
  "in_surge_region surge s p \<longleftrightarrow> p - surge_buf surge < s_size s"

subsection \<open>Call sequences and example states\<close>

text \<open>A caller pushing the children \<open>cs\<close> one after the other, as the header's usage
  example does; the result lists what each \<^verbatim>\<open>abyss_totem_push\<close> returned.\<close>

fun push_all ::
  "Abyss_Totem \<Rightarrow> (addr \<times> abyss_allocator_t) list \<Rightarrow> error + (addr list \<times> Abyss_Totem)" where
  "push_all t [] = Inr ([], t)"
| "push_all t ((c, ty) # cs) =
     (case abyss_totem_push t c ty of
        Inl e \<Rightarrow> Inl e
      | Inr (r, t') \<Rightarrow>
          (case push_all t' cs of
             Inl e \<Rightarrow> Inl e
           | Inr (rs, t'') \<Rightarrow> Inr (r # rs, t'')))"

text \<open>A buffer whose slots all hold a null pointer before \<^verbatim>\<open>abyss_totem_init\<close>.\<close>

definition zero_mem :: "nat \<Rightarrow> slot" where
  "zero_mem i = \<lparr> slot_ptr = 0, slot_type = ABYSS_SURGE_T \<rparr>"

text \<open>An arena just made by \<^verbatim>\<open>abyss_arena_init\<close> on 256 bytes, and the same arena used up.\<close>

definition fresh_arena :: Abyss_Arena where
  "fresh_arena = \<lparr> a_offset = 0, a_size = 240 \<rparr>"

definition full_arena :: Abyss_Arena where
  "full_arena = \<lparr> a_offset = 240, a_size = 240 \<rparr>"

text \<open>A totem made on 72 bytes (room for four slots) after
  \<^verbatim>\<open>push(0x2000, ABYSS_ARENA_T); push(0x3000, ABYSS_ARENA_T)\<close>.\<close>

definition two_arena_totem :: Abyss_Totem where
  "two_arena_totem =
     \<lparr> t_head = 1, t_capacity = 8,
       t_allocators =
         [\<lparr> slot_ptr = 0x2000, slot_type = ABYSS_ARENA_T \<rparr>,
          \<lparr> slot_ptr = 0x3000, slot_type = ABYSS_ARENA_T \<rparr>,
          zero_mem 2, zero_mem 3] \<rparr>"

text \<open>That totem at address 0x1000, with arena \<open>a\<close> at 0x2000 and arena \<open>b\<close> at 0x3000.\<close>

definition two_arena_heap :: "Abyss_Arena \<Rightarrow> Abyss_Arena \<Rightarrow> heap" where
  "two_arena_heap a b =
     [0x1000 \<mapsto> Totem_obj two_arena_totem, 0x2000 \<mapsto> Arena_obj a, 0x3000 \<mapsto> Arena_obj b]"

text \<open>The same totem after \<^verbatim>\<open>push(0x4000, ABYSS_SURGE_T); pop(-1)\<close>: two children, and
  the popped entry still in slot 2.\<close>

definition three_pushed_one_popped :: Abyss_Totem where
  "three_pushed_one_popped =
     \<lparr> t_head = 1, t_capacity = 8,
       t_allocators =
         [\<lparr> slot_ptr = 0x2000, slot_type = ABYSS_ARENA_T \<rparr>,
          \<lparr> slot_ptr = 0x3000, slot_type = ABYSS_ARENA_T \<rparr>,
          \<lparr> slot_ptr = 0x4000, slot_type = ABYSS_SURGE_T \<rparr>, zero_mem 3] \<rparr>"

section \<open>Properties\<close>

lemmas abyss_consts =
  sizeof_Abyss_Arena_def sizeof_Abyss_Surge_def sizeof_Abyss_Totem_def sizeof_slot_def
  sizeof_voidp_def sizeof_abyss_handle_def ABYSS_DATA_ALIGN_def ABYSS_ROUND_UP_def
  ABYSS_ROUND_S_def abyss_handle_NULL_def abyss_handle_is_NULL_def abyss_handle_switch_def
  abyss_handle_get_hdl_def abyss_handle_get_ptr_def arena_buf_def surge_buf_def

text \<open>The example totems are what the code builds.\<close>

lemma slots_72: "slots_in_buffer zero_mem 72 = [zero_mem 0, zero_mem 1, zero_mem 2, zero_mem 3]"
  by code_simp

lemma two_arena_totem_built:
  "abyss_totem_init zero_mem 72 =
     Some \<lparr> t_head = - 1, t_capacity = 8, t_allocators = slots_in_buffer zero_mem 72 \<rparr>
   \<and> push_all \<lparr> t_head = - 1, t_capacity = 8, t_allocators = slots_in_buffer zero_mem 72 \<rparr>
         [(0x2000, ABYSS_ARENA_T), (0x3000, ABYSS_ARENA_T)]
       = Inr ([0x2000, 0x3000], two_arena_totem)"
  by (simp add: abyss_totem_init_def abyss_totem_push_def two_arena_totem_def slots_72
      abyss_consts Let_def word_le_nat_alt)

lemma three_pushed_one_popped_built:
  "abyss_totem_push two_arena_totem 0x4000 ABYSS_SURGE_T
       = Inr (0x4000, three_pushed_one_popped\<lparr> t_head := 2 \<rparr>)
   \<and> abyss_totem_pop (three_pushed_one_popped\<lparr> t_head := 2 \<rparr>) (- 1)
       = Inr (0x4000, Some ABYSS_SURGE_T, three_pushed_one_popped)"
  by (simp add: abyss_totem_push_def abyss_totem_pop_def two_arena_totem_def
      three_pushed_one_popped_def zero_mem_def abyss_consts Let_def)

lemma fresh_arena_built: "abyss_arena_init 256 = Some fresh_arena"
  by (simp add: abyss_arena_init_def fresh_arena_def abyss_consts)

subsection \<open>Capacity failures\<close>

lemma arena_free_mem_unat:
  "a_offset a \<le> a_size a \<Longrightarrow> unat (arena_free_mem a) = unat (a_size a) - unat (a_offset a)"
  by (simp add: arena_free_mem_def unat_sub)

lemma surge_free_mem_unat:
  "s_offset s \<le> s_size s \<Longrightarrow> unat (surge_free_mem s) = unat (s_size s) - unat (s_offset s)"
  by (simp add: surge_free_mem_def unat_sub)

lemma arena_alloc_fail:
  "arena_free_mem a < n \<Longrightarrow> abyss_arena_alloc hm arena a n = (abyss_handle_NULL, a)"
  by (auto simp: abyss_arena_alloc_def arena_free_mem_def)

lemma surge_alloc_fail:
  "surge_free_mem s < n \<Longrightarrow> abyss_surge_alloc hm surge s n = (abyss_handle_NULL, s)"
  by (auto simp: abyss_surge_alloc_def surge_free_mem_def)

lemma arena_alloc_fail_nat:
  "a_offset a \<le> a_size a \<Longrightarrow> unat (a_size a) - unat (a_offset a) < unat n \<Longrightarrow>
   abyss_arena_alloc hm arena a n = (abyss_handle_NULL, a)"
  by (rule arena_alloc_fail) (simp add: word_less_nat_alt arena_free_mem_unat)

lemma surge_alloc_fail_nat:
  "s_offset s \<le> s_size s \<Longrightarrow> unat (s_size s) - unat (s_offset s) < unat n \<Longrightarrow>
   abyss_surge_alloc hm surge s n = (abyss_handle_NULL, s)"
  by (rule surge_alloc_fail) (simp add: word_less_nat_alt surge_free_mem_unat)

text \<open>Calls that never write to the allocator.\<close>

lemma arena_free_state: "fst (abyss_arena_free hm arena a hdl) = a"
  by (simp add: abyss_arena_free_def)

lemma arena_alloc_zero_state: "snd (abyss_arena_alloc hm arena a 0) = a"
  by (simp add: abyss_arena_alloc_def)

lemma surge_alloc_zero_state: "snd (abyss_surge_alloc hm surge s 0) = s"
  by (simp add: abyss_surge_alloc_def)

lemma totem_push_full:
  "t_capacity t \<le> t_head t + 1 \<Longrightarrow> abyss_totem_push t c ty = Inr (abyss_handle_NULL, t)"
  by (simp add: abyss_totem_push_def)

text \<open>
  On the code's own test. When the wrapped difference \<^verbatim>\<open>size - offset\<close> is below the
  request, both \<^verbatim>\<open>alloc\<close> functions return the null handle and the unchanged allocator,
  so the same call on the result fails in the same way; a \<^verbatim>\<open>push\<close> on a totem with
  \<open>head + 1 = capacity\<close> returns null and the unchanged totem.
\<close>

lemma failed_test_leaves_state:
  "(arena_free_mem a < n \<longrightarrow>
      abyss_arena_alloc hm arena a n = (abyss_handle_NULL, a) \<and>
      abyss_arena_alloc hm arena (snd (abyss_arena_alloc hm arena a n)) n
        = (abyss_handle_NULL, a))
   \<and> (surge_free_mem s < n \<longrightarrow>
      abyss_surge_alloc hm surge s n = (abyss_handle_NULL, s) \<and>
      abyss_surge_alloc hm surge (snd (abyss_surge_alloc hm surge s n)) n
        = (abyss_handle_NULL, s))
   \<and> (t_head t + 1 = t_capacity t \<longrightarrow>
      abyss_totem_push t c ty = Inr (abyss_handle_NULL, t))"
  by (simp add: arena_alloc_fail surge_alloc_fail totem_push_full)

text \<open>
  C6. The claim has every \<^verbatim>\<open>alloc\<close> of more than the remaining space return null and
  leave the allocator unchanged. The arena made on 100 bytes has offset 88 and size 84
  after \<^verbatim>\<open>alloc(81)\<close>: nothing remains, yet \<^verbatim>\<open>alloc(8)\<close> returns the non-null 0x1068 and
  moves the offset to 96, and the same call again returns another handle. The Surge made
  on 28 bytes has offset 8 and size 4 after \<^verbatim>\<open>reset\<close>, and \<^verbatim>\<open>alloc(100)\<close> is granted
  with offset and count changed. A \<^verbatim>\<open>push\<close> on the full one-slot totem does return
  null and the unchanged totem.
\<close>

theorem alloc_granted_with_nothing_remaining:
  "abyss_arena_init 100 = Some \<lparr> a_offset = 0, a_size = 84 \<rparr>
   \<and> snd (abyss_arena_alloc False 0x1000 \<lparr> a_offset = 0, a_size = 84 \<rparr> 81)
       = \<lparr> a_offset = 88, a_size = 84 \<rparr>
   \<and> unat (a_size \<lparr> a_offset = 88, a_size = 84 \<rparr>)
         - unat (a_offset \<lparr> a_offset = 88, a_size = 84 \<rparr>) < unat (8 :: size_t)
   \<and> abyss_arena_alloc False 0x1000 \<lparr> a_offset = 88, a_size = 84 \<rparr> 8
       = (0x1068, \<lparr> a_offset = 96, a_size = 84 \<rparr>)
   \<and> abyss_arena_alloc False 0x1000 \<lparr> a_offset = 96, a_size = 84 \<rparr> 8
       = (0x1070, \<lparr> a_offset = 104, a_size = 84 \<rparr>)
   \<and> abyss_surge_init 28 = Some \<lparr> s_size = 4, s_offset = 0, s_count = 0 \<rparr>
   \<and> abyss_surge_reset \<lparr> s_size = 4, s_offset = 0, s_count = 0 \<rparr>
       = \<lparr> s_size = 4, s_offset = 8, s_count = 0 \<rparr>
   \<and> unat (s_size \<lparr> s_size = 4, s_offset = 8, s_count = 0 \<rparr>)
         - unat (s_offset \<lparr> s_size = 4, s_offset = 8, s_count = 0 \<rparr>) < unat (100 :: size_t)
   \<and> abyss_surge_alloc False 0x2000 \<lparr> s_size = 4, s_offset = 8, s_count = 0 \<rparr> 100
       = (0x2020, \<lparr> s_size = 4, s_offset = 112, s_count = 1 \<rparr>)
   \<and> abyss_totem_push \<lparr> t_head = 0, t_capacity = 1,
         t_allocators = [\<lparr> slot_ptr = 0x1000, slot_type = ABYSS_ARENA_T \<rparr>] \<rparr>
         0x2000 ABYSS_SURGE_T
       = Inr (abyss_handle_NULL, \<lparr> t_head = 0, t_capacity = 1,
         t_allocators = [\<lparr> slot_ptr = 0x1000, slot_type = ABYSS_ARENA_T \<rparr>] \<rparr>)"
  by (simp add: abyss_arena_init_def abyss_arena_alloc_def abyss_surge_init_def
      abyss_surge_reset_def abyss_surge_alloc_def abyss_totem_push_def abyss_consts)

subsection \<open>Handles in offset mode\<close>

lemma roundtrip_neq:
  "p \<noteq> allocator \<Longrightarrow>
   abyss_handle_get_ptr True allocator (abyss_handle_get_hdl True allocator p) = p"
  by (simp add: abyss_handle_get_ptr_def abyss_handle_get_hdl_def)

lemma region_not_base:
  fixes hdr sz :: "64 word"
  assumes le: "hdr \<le> sz" and pos: "0 < hdr" and reg: "p - (base + hdr) < sz - hdr"
  shows "p \<noteq> base"
proof
  assume "p = base"
  then have "p - (base + hdr) = 0 - hdr" by simp
  with reg have lt: "unat (0 - hdr) < unat (sz - hdr)" by (simp add: word_less_nat_alt)
  from pos have hpos: "0 < unat hdr" by (simp add: word_less_nat_alt)
  from le have hle: "unat hdr \<le> unat sz" by (simp add: word_le_nat_alt)
  have "unat sz < (2::nat) ^ 64"
    using unsigned_less [of sz] by (simp del: unsigned_less)
  moreover have "unat (0 - hdr) = 2 ^ 64 - unat hdr"
    using hpos unat_sub_if_size [of 0 hdr] by (simp add: word_size)
  moreover have "unat (sz - hdr) = unat sz - unat hdr"
    using hle by (simp add: unat_sub_if_size)
  ultimately show False using lt hpos hle by linarith
qed

lemma arena_region_not_base:
  assumes "abyss_arena_init sz = Some a" and "in_arena_region arena a p"
  shows "p \<noteq> arena"
proof -
  from assms(1) have le: "sizeof_Abyss_Arena \<le> sz" and sz: "a_size a = sz - sizeof_Abyss_Arena"
    by (auto simp: abyss_arena_init_def split: if_splits)
  have pos: "0 < sizeof_Abyss_Arena" by (simp add: sizeof_Abyss_Arena_def)
  from assms(2) sz have "p - (arena + sizeof_Abyss_Arena) < sz - sizeof_Abyss_Arena"
    by (simp add: in_arena_region_def arena_buf_def)
  with le pos show ?thesis by (rule region_not_base)
qed

lemma surge_region_not_base:
  assumes "abyss_surge_init sz = Some s" and "in_surge_region surge s p"
  shows "p \<noteq> surge"
proof -
  from assms(1) have le: "sizeof_Abyss_Surge \<le> sz" and sz: "s_size s = sz - sizeof_Abyss_Surge"
    by (auto simp: abyss_surge_init_def split: if_splits)
  have pos: "0 < sizeof_Abyss_Surge" by (simp add: sizeof_Abyss_Surge_def)
  from assms(2) sz have "p - (surge + sizeof_Abyss_Surge) < sz - sizeof_Abyss_Surge"
    by (simp add: in_surge_region_def surge_buf_def)
  with le pos show ?thesis by (rule region_not_base)
qed

text \<open>
  C9. In handle (offset) mode, for an Arena or a Surge set up by \<^verbatim>\<open>init\<close> at any base
  address and any pointer \<open>p\<close> in its managed region, turning \<open>p\<close> into a handle with
  \<^verbatim>\<open>abyss_handle_get_hdl\<close> and back with \<^verbatim>\<open>abyss_handle_get_ptr\<close> gives \<open>p\<close>. Both
  conversions are functions of the base and the pointer or handle alone: they take no
  allocator state.
\<close>

theorem handle_roundtrip:
  "(abyss_arena_init sz = Some a \<and> in_arena_region arena a p \<longrightarrow>
      abyss_handle_get_ptr True arena (abyss_handle_get_hdl True arena p) = p)
   \<and> (abyss_surge_init sz = Some s \<and> in_surge_region surge s p \<longrightarrow>
      abyss_handle_get_ptr True surge (abyss_handle_get_hdl True surge p) = p)"
  by (metis roundtrip_neq arena_region_not_base surge_region_not_base)

theorem handle_roundtrip_witness:
  "abyss_arena_init 256 = Some \<lparr> a_offset = 0, a_size = 240 \<rparr>
   \<and> in_arena_region 0x1000 \<lparr> a_offset = 0, a_size = 240 \<rparr> 0x1018
   \<and> abyss_handle_get_hdl True 0x1000 0x1018 = 0x18
   \<and> abyss_handle_get_ptr True 0x1000 (abyss_handle_get_hdl True 0x1000 0x1018) = 0x1018
   \<and> abyss_surge_init 256 = Some \<lparr> s_size = 232, s_offset = 0, s_count = 0 \<rparr>
   \<and> in_surge_region 0x2000 \<lparr> s_size = 232, s_offset = 0, s_count = 0 \<rparr> 0x2020
   \<and> abyss_handle_get_ptr True 0x2000 (abyss_handle_get_hdl True 0x2000 0x2020) = 0x2020"
  using handle_roundtrip
    [of 256 "\<lparr> a_offset = 0, a_size = 240 \<rparr>" "0x1000" "0x1018"]
    handle_roundtrip
    [of 256 _ _ "0x2020" "\<lparr> s_size = 232, s_offset = 0, s_count = 0 \<rparr>" "0x2000"]
  by (simp add: abyss_arena_init_def abyss_surge_init_def in_arena_region_def
      in_surge_region_def arena_buf_def surge_buf_def sizeof_Abyss_Arena_def
      sizeof_Abyss_Surge_def ABYSS_ROUND_S_def ABYSS_ROUND_UP_def ABYSS_DATA_ALIGN_def
      abyss_handle_get_hdl_def)

subsection \<open>Totem capacity against the bytes of the buffer\<close>

lemma totem_size_minus_header:
  "ABYSS_TOTEM_SIZE c - sizeof_Abyss_Totem = 8 * c"
  by (simp add: ABYSS_TOTEM_SIZE_def sizeof_voidp_def)

lemma unat_8n: "n \<le> 65535 \<Longrightarrow> unat (8 * of_nat n :: 64 word) = 8 * n"
  by (simp add: unat_word_ariths unat_of_nat)

lemma totem_size_not_small:
  "n \<le> 65535 \<Longrightarrow> \<not> ABYSS_TOTEM_SIZE (of_nat n) < sizeof_Abyss_Totem"
  apply (simp add: ABYSS_TOTEM_SIZE_def sizeof_voidp_def sizeof_Abyss_Totem_def word_less_nat_alt)
  apply (simp add: unat_word_ariths unat_of_nat)
  done

lemma div8_of_nat: "n \<le> 65535 \<Longrightarrow> (8 * of_nat n :: 64 word) div 8 = of_nat n"
  by (rule word_unat_eq_iff [THEN iffD2]) (simp add: unat_div unat_8n unat_of_nat)

lemma ucast_of_nat_16: "n \<le> 65535 \<Longrightarrow> (ucast (of_nat n :: 64 word) :: 16 word) = of_nat n"
  by (simp add: unsigned_of_nat take_bit_nat_eq_self)

lemma capacity_of_totem_size:
  "n \<le> 65535 \<Longrightarrow>
   (ucast ((ABYSS_TOTEM_SIZE (of_nat n) - sizeof_Abyss_Totem) div sizeof_abyss_handle) :: 16 word)
     = of_nat n"
  by (simp add: totem_size_minus_header sizeof_abyss_handle_def div8_of_nat ucast_of_nat_16)

lemma slots_of_totem_size:
  "n \<le> 65535 \<Longrightarrow>
   length (slots_in_buffer mem (ABYSS_TOTEM_SIZE (of_nat n))) = n div 2"
  by (simp add: slots_in_buffer_def totem_size_minus_header sizeof_slot_def unat_div unat_8n)

lemma totem_init_totem_size:
  "n \<le> 65535 \<Longrightarrow>
   abyss_totem_init mem (ABYSS_TOTEM_SIZE (of_nat n)) =
     Some \<lparr> t_head = - 1, t_capacity = of_nat n,
            t_allocators = slots_in_buffer mem (ABYSS_TOTEM_SIZE (of_nat n)) \<rparr>"
  by (simp add: abyss_totem_init_def totem_size_not_small capacity_of_totem_size)

text \<open>Pushing into a totem that holds \<open>k\<close> children, while slots inside the buffer are
  left: every push returns its child, and the totem ends with all \<open>m\<close> slots in use.\<close>

lemma push_all_fills:
  "length (t_allocators t) = m \<Longrightarrow> m < n \<Longrightarrow> n \<le> 65535 \<Longrightarrow> t_capacity t = of_nat n \<Longrightarrow>
   t_head t = of_nat k - 1 \<Longrightarrow> k + length cs = m \<Longrightarrow>
   \<exists>t'. push_all t cs = Inr (map fst cs, t') \<and> length (t_allocators t') = m \<and>
        t_capacity t' = of_nat n \<and> t_head t' = of_nat m - 1"
proof (induction cs arbitrary: t k)
  case Nil
  then show ?case by simp
next
  case (Cons x cs)
  obtain c ty where x: "x = (c, ty)" by (cases x)
  from Cons.prems have k: "k < m" by simp
  have hd1: "t_head t + 1 = of_nat k" using Cons.prems by simp
  have un: "unat (of_nat k :: 16 word) = k" using k Cons.prems by (simp add: unat_of_nat)
  have unn: "unat (of_nat n :: 16 word) = n" using Cons.prems by (simp add: unat_of_nat)
  have notfull: "\<not> t_capacity t \<le> t_head t + 1"
    using Cons.prems k by (simp add: hd1 word_le_nat_alt un unn)
  define t1 where "t1 = t\<lparr> t_head := of_nat k,
      t_allocators := (t_allocators t)[k := \<lparr> slot_ptr = c, slot_type = ty \<rparr>] \<rparr>"
  have push: "abyss_totem_push t c ty = Inr (c, t1)"
    using notfull k Cons.prems by (simp add: abyss_totem_push_def hd1 un t1_def Let_def)
  have "\<exists>t'. push_all t1 cs = Inr (map fst cs, t') \<and> length (t_allocators t') = m \<and>
        t_capacity t' = of_nat n \<and> t_head t' = of_nat m - 1"
  proof (rule Cons.IH [where k = "Suc k"])
    show "length (t_allocators t1) = m" using Cons.prems by (simp add: t1_def)
    show "m < n" by fact
    show "n \<le> 65535" by fact
    show "t_capacity t1 = of_nat n" using Cons.prems by (simp add: t1_def)
    show "t_head t1 = of_nat (Suc k) - 1" by (simp add: t1_def)
    show "Suc k + length cs = m" using Cons.prems by simp
  qed
  then show ?case using push x by auto
qed

text \<open>With every slot inside the buffer in use and the capacity not reached, the next
  push is not refused: it writes the slot after the end of the buffer.\<close>

lemma push_past_buffer:
  "length (t_allocators t) = m \<Longrightarrow> m < n \<Longrightarrow> n \<le> 65535 \<Longrightarrow> t_capacity t = of_nat n \<Longrightarrow>
   t_head t = of_nat m - 1 \<Longrightarrow> abyss_totem_push t c ty = Inl Out_of_bounds"
  by (simp add: abyss_totem_push_def word_le_nat_alt unat_of_nat)

text \<open>
  C10, as stated for every \<open>n \<ge> 1\<close>, fails at \<open>n = 65536\<close>: the capacity is stored in an
  \<^verbatim>\<open>unsigned short\<close>, and a totem made on \<^verbatim>\<open>ABYSS_TOTEM_SIZE(65536)\<close> bytes reports
  capacity 0.
\<close>

theorem totem_size_capacity_counterexample:
  "map_option t_capacity (abyss_totem_init zero_mem (ABYSS_TOTEM_SIZE 65536)) = Some 0"
  by (simp add: abyss_totem_init_def ABYSS_TOTEM_SIZE_def abyss_consts)

text \<open>
  C10, for \<open>1 \<le> n \<le> 65535\<close>. A totem made on a buffer of exactly \<^verbatim>\<open>ABYSS_TOTEM_SIZE(n)\<close>
  bytes reports capacity \<open>n\<close>, but only \<open>n div 2\<close> slots, fewer than \<open>n\<close>, lie inside the
  buffer. After \<open>n div 2\<close> pushes, each of which returns its child, one more push is not
  refused for capacity: it writes a slot past the end of the buffer.
\<close>

theorem totem_size_overflows_buffer:
  assumes "1 \<le> n" and "n \<le> 65535" and "length cs = n div 2"
  shows "\<exists>t t'. abyss_totem_init mem (ABYSS_TOTEM_SIZE (of_nat n)) = Some t
     \<and> unat (t_capacity t) = n
     \<and> length (t_allocators t) = n div 2 \<and> n div 2 < n
     \<and> push_all t cs = Inr (map fst cs, t')
     \<and> abyss_totem_push t' c ty = Inl Out_of_bounds"
proof -
  define t where "t = \<lparr> t_head = - 1, t_capacity = of_nat n,
            t_allocators = slots_in_buffer mem (ABYSS_TOTEM_SIZE (of_nat n)) \<rparr>"
  have init: "abyss_totem_init mem (ABYSS_TOTEM_SIZE (of_nat n)) = Some t"
    using assms(2) by (simp add: totem_init_totem_size t_def)
  have len: "length (t_allocators t) = n div 2"
    using assms(2) by (simp add: t_def slots_of_totem_size)
  have lt: "n div 2 < n" using assms(1) by simp
  have cap: "unat (t_capacity t) = n" using assms(2) by (simp add: t_def unat_of_nat)
  obtain t' where t': "push_all t cs = Inr (map fst cs, t')" "length (t_allocators t') = n div 2"
        "t_capacity t' = of_nat n" "t_head t' = of_nat (n div 2) - 1"
    using push_all_fills [OF len lt assms(2), of 0 cs] assms(3) by (auto simp: t_def)
  have "abyss_totem_push t' c ty = Inl Out_of_bounds"
    using t'(2) lt assms(2) t'(3) t'(4) by (rule push_past_buffer)
  with init len lt cap t'(1) show ?thesis by blast
qed

theorem totem_size_overflows_buffer_witness:
  "(1::nat) \<le> 3 \<and> (3::nat) \<le> 65535 \<and> length [(0x2000 :: addr, ABYSS_ARENA_T)] = 3 div 2
   \<and> (\<exists>t t'. abyss_totem_init zero_mem (ABYSS_TOTEM_SIZE (of_nat 3)) = Some t
     \<and> unat (t_capacity t) = 3
     \<and> length (t_allocators t) = 3 div 2 \<and> (3::nat) div 2 < 3
     \<and> push_all t [(0x2000, ABYSS_ARENA_T)] = Inr (map fst [(0x2000 :: addr, ABYSS_ARENA_T)], t')
     \<and> abyss_totem_push t' 0x3000 ABYSS_ARENA_T = Inl Out_of_bounds)"
  using totem_size_overflows_buffer
    [of 3 "[(0x2000, ABYSS_ARENA_T)]" zero_mem "0x3000" ABYSS_ARENA_T]
  by simp

subsection \<open>Behaviour at particular inputs\<close>

text \<open>
  C1. The claim has the scan of \<^verbatim>\<open>abyss_totem_alloc\<close> stop at the first non-null handle.
  The loop leaves only on a null handle. With two fresh arenas in the totem (0x3000 pushed
  last) a request of 8 bytes is served by 0x3000 and then again by 0x2000: both arenas
  advance, and the handle returned is that of child 0. With arena 0x2000 full, the same
  request takes 8 bytes from 0x3000 and still returns null.
\<close>

theorem totem_alloc_scans_past_success:
  "(\<exists>h'. abyss_totem_alloc 1 False (two_arena_heap fresh_arena fresh_arena) 0x1000 8
           = Inr (0x2010, h')
        \<and> h' 0x3000 = Some (Arena_obj \<lparr> a_offset = 8, a_size = 240 \<rparr>)
        \<and> h' 0x2000 = Some (Arena_obj \<lparr> a_offset = 8, a_size = 240 \<rparr>))
   \<and> (\<exists>h'. abyss_totem_alloc 1 False (two_arena_heap full_arena fresh_arena) 0x1000 8
           = Inr (abyss_handle_NULL, h')
        \<and> h' 0x3000 = Some (Arena_obj \<lparr> a_offset = 8, a_size = 240 \<rparr>)
        \<and> h' 0x2000 = Some (Arena_obj full_arena))"
  by (simp add: two_arena_heap_def two_arena_totem_def fresh_arena_def full_arena_def
      abyss_arena_alloc_def abyss_consts zero_mem_def)

text \<open>
  C2. The claim has a drained Surge back at the offset \<^verbatim>\<open>abyss_surge_init\<close> set. On a
  256-byte buffer init sets offset 0; one allocation of 8 bytes and the free of its handle
  bring count back to 0 but leave offset 8. A second allocation made before that free has
  its own free refused as out of range, so two allocations and two frees do not bring
  count back to 0.
\<close>

theorem surge_drain_offset_not_init:
  "abyss_surge_init 256 = Some \<lparr> s_size = 232, s_offset = 0, s_count = 0 \<rparr>
   \<and> abyss_surge_alloc False 0x1000 \<lparr> s_size = 232, s_offset = 0, s_count = 0 \<rparr> 8
       = (0x1018, \<lparr> s_size = 232, s_offset = 8, s_count = 1 \<rparr>)
   \<and> abyss_surge_free False 0x1000 \<lparr> s_size = 232, s_offset = 8, s_count = 1 \<rparr> 0x1018
       = (\<lparr> s_size = 232, s_offset = 8, s_count = 0 \<rparr>, [])
   \<and> abyss_surge_alloc False 0x1000 \<lparr> s_size = 232, s_offset = 8, s_count = 1 \<rparr> 8
       = (0x1020, \<lparr> s_size = 232, s_offset = 16, s_count = 2 \<rparr>)
   \<and> abyss_surge_free False 0x1000 \<lparr> s_size = 232, s_offset = 16, s_count = 2 \<rparr> 0x1020
       = (\<lparr> s_size = 232, s_offset = 16, s_count = 2 \<rparr>, [Warn_invalid_free])
   \<and> abyss_surge_free False 0x1000 \<lparr> s_size = 232, s_offset = 16, s_count = 2 \<rparr> 0x1018
       = (\<lparr> s_size = 232, s_offset = 16, s_count = 1 \<rparr>, [])"
  by (simp add: abyss_surge_init_def abyss_surge_alloc_def abyss_surge_free_def
      abyss_surge_contains_def abyss_consts)

text \<open>
  C3. The claim has \<open>offset \<le> size\<close> after every operation. On a 100-byte buffer init
  gives size 84 and offset 0; a request of 81 bytes fits the 84 remaining and moves the
  offset to 88, above size. The next request, of 1000 bytes, is then granted at
  \<^verbatim>\<open>buf + 88\<close>, past the end of the buffer.
\<close>

theorem arena_alloc_offset_past_size:
  "abyss_arena_init 100 = Some \<lparr> a_offset = 0, a_size = 84 \<rparr>
   \<and> arena_free_mem \<lparr> a_offset = 0, a_size = 84 \<rparr> = 84
   \<and> abyss_arena_alloc False 0x1000 \<lparr> a_offset = 0, a_size = 84 \<rparr> 81
       = (0x1010, \<lparr> a_offset = 88, a_size = 84 \<rparr>)
   \<and> a_size \<lparr> a_offset = 88, a_size = 84 \<rparr> < a_offset \<lparr> a_offset = 88, a_size = 84 \<rparr>
   \<and> abyss_arena_alloc False 0x1000 \<lparr> a_offset = 88, a_size = 84 \<rparr> 1000
       = (0x1068, \<lparr> a_offset = 1088, a_size = 84 \<rparr>)"
  by (simp add: abyss_arena_init_def abyss_arena_alloc_def arena_free_mem_def abyss_consts)

text \<open>
  C4. The claim has \<^verbatim>\<open>abyss_arena_free\<close> warn exactly for addresses outside
  \<^verbatim>\<open>[buf, buf + offset)\<close>. After two allocations of 8 bytes from the arena at 0x1000
  (handles 0x1010 and 0x1018, offset 16), the free of 0x1018 warns although the address is
  inside the allocated range, and the free of 0x1008, an address inside the header, does
  not. The arena is unchanged in both calls.
\<close>

theorem arena_free_warns_on_live_block:
  "abyss_arena_alloc False 0x1000 \<lparr> a_offset = 0, a_size = 240 \<rparr> 8
       = (0x1010, \<lparr> a_offset = 8, a_size = 240 \<rparr>)
   \<and> abyss_arena_alloc False 0x1000 \<lparr> a_offset = 8, a_size = 240 \<rparr> 8
       = (0x1018, \<lparr> a_offset = 16, a_size = 240 \<rparr>)
   \<and> abyss_arena_free False 0x1000 \<lparr> a_offset = 16, a_size = 240 \<rparr> 0x1018
       = (\<lparr> a_offset = 16, a_size = 240 \<rparr>, [Warn_invalid_free])
   \<and> abyss_arena_free False 0x1000 \<lparr> a_offset = 16, a_size = 240 \<rparr> 0x1008
       = (\<lparr> a_offset = 16, a_size = 240 \<rparr>, [])"
  by (simp add: abyss_arena_alloc_def abyss_arena_free_def abyss_arena_contains_def abyss_consts)

text \<open>
  C5. The claim has \<^verbatim>\<open>abyss_totem_free\<close> warn if and only if no child claims the pointer.
  With 8 bytes allocated from the arena at 0x3000, the pointer 0x3010 is claimed by that
  arena and the totem warns; the pointer 0x5000 is claimed by no child and the totem
  prints nothing.
\<close>

theorem totem_free_warns_when_claimed:
  "(\<exists>h'. abyss_totem_free 1 False
            (two_arena_heap fresh_arena \<lparr> a_offset = 8, a_size = 240 \<rparr>) 0x1000 0x3010
           = Inr (h', [Warn_totem_invalid_free]))
   \<and> abyss_arena_contains 0x3000 \<lparr> a_offset = 8, a_size = 240 \<rparr> 0x3010
   \<and> (\<exists>h'. abyss_totem_free 1 False
            (two_arena_heap fresh_arena \<lparr> a_offset = 8, a_size = 240 \<rparr>) 0x1000 0x5000
           = Inr (h', []))
   \<and> \<not> abyss_arena_contains 0x3000 \<lparr> a_offset = 8, a_size = 240 \<rparr> 0x5000
   \<and> \<not> abyss_arena_contains 0x2000 fresh_arena 0x5000"
  by (simp add: abyss_totem_free_def two_arena_heap_def two_arena_totem_def fresh_arena_def
      abyss_arena_free_def abyss_arena_contains_def abyss_consts zero_mem_def)

text \<open>
  C7. The claim has \<^verbatim>\<open>alloc(0)\<close> return the handle of the next non-zero \<^verbatim>\<open>alloc\<close>. On a
  fresh arena at 0x1000, \<^verbatim>\<open>alloc(0)\<close> returns 0x1000, the address of the header, and
  \<^verbatim>\<open>alloc(8)\<close> returns 0x1010; in handle mode they return 0, the null handle, and 16.
  On a fresh Surge they return 0x1000 and 0x1018.
\<close>

theorem alloc_zero_not_next_handle:
  "fst (abyss_arena_alloc False 0x1000 fresh_arena 0) = 0x1000
   \<and> fst (abyss_arena_alloc False 0x1000 fresh_arena 8) = 0x1010
   \<and> fst (abyss_arena_alloc True 0x1000 fresh_arena 0) = abyss_handle_NULL
   \<and> fst (abyss_arena_alloc True 0x1000 fresh_arena 8) = 16
   \<and> fst (abyss_surge_alloc False 0x1000 \<lparr> s_size = 232, s_offset = 0, s_count = 0 \<rparr> 0) = 0x1000
   \<and> fst (abyss_surge_alloc False 0x1000 \<lparr> s_size = 232, s_offset = 0, s_count = 0 \<rparr> 8) = 0x1018"
  by (simp add: abyss_arena_alloc_def abyss_surge_alloc_def fresh_arena_def abyss_consts)

text \<open>
  C8. The claim has \<^verbatim>\<open>abyss_totem_pop\<close> fail, with the totem unchanged, when the index
  resolves outside \<open>[0, head]\<close>. On the totem with two children (head 1) and the entry
  popped before still in slot 2, \<^verbatim>\<open>pop(2)\<close> returns that entry again and decrements head,
  which drops the child at index 1; \<^verbatim>\<open>pop(-5)\<close> resolves to index -3 and reads before the
  array.
\<close>

theorem totem_pop_beyond_head:
  "abyss_totem_pop three_pushed_one_popped 2
       = Inr (0x4000, Some ABYSS_SURGE_T, three_pushed_one_popped\<lparr> t_head := 0 \<rparr>)
   \<and> abyss_totem_pop three_pushed_one_popped (- 5) = Inl Out_of_bounds"
  by (simp add: abyss_totem_pop_def three_pushed_one_popped_def zero_mem_def Let_def)

end
